theory Spec2Isabelle
  imports Main "HOL-Library.Word"
begin

section \<open>The ITS-S identity manager of \<open>itss.py\<close>\<close>

text \<open>
  A shallow embedding of class \<open>ITSS\<close> and of the inbound handler of \<open>main\<close> in
  \<open>src/itss.py\<close>. The object's attributes are a record; the file system under the
  storage directory, the clock, the random source and the log of calls that leave the
  process are a second record, the world. Every method takes the object and the world
  and returns an outcome together with the object and the world as the method left
  them: a Python exception does not undo the assignments made before it.

  The libraries the module calls (the \<open>cryptography\<close> package, the \<open>asn1tools\<close>
  codec, \<open>requests\<close>, and the certificate and message classes of package \<open>itss\<close>) are
  not part of the source file. They are parameters, collected in the record \<open>env\<close>;
  a call that may fail returns \<open>Inl msg\<close>, which the model raises as
  \<open>LibraryError msg\<close>.
\<close>

subsection \<open>Values\<close>

type_synonym byte = "8 word"
type_synonym bytes = "byte list"

text \<open>An elliptic-curve private key with the affine coordinates of its public point.\<close>

record private_key =
  private_value :: int
  pub_x :: int
  pub_y :: int

text \<open>\<open>itss.CITS103097v121Certificate\<close>: the attributes the module reads.\<close>

record certificate =
  Digest :: bytes
  Data :: bytes

text \<open>The handle of the OpenSSL engine.\<close>

type_synonym engine = nat

text \<open>
  The exceptions of the module. \<open>LibraryError\<close> stands for whatever a library call
  raises; all of them derive from Python's \<open>Exception\<close>. \<open>sys.exit\<close> raises
  \<open>SystemExit\<close>, which does not: it is the outcome \<open>Exited\<close>.
\<close>

datatype exn =
    AssertionError
  | RuntimeError string
  | AttributeError
  | TypeError
  | KeyError string
  | FileNotFoundError string
  | LibraryError string

datatype 'a outcome = Returned 'a | Raised exn | Exited int

text \<open>The calls that leave the process, in the order they are made.\<close>

datatype event =
    Print string
  | FileRead string
  | FileWrite string bytes
  | FileUnlink string
  | HttpPut string bytes
  | HttpGet string
  | Sign bytes

record ITSS =
  PrivateKey :: "private_key option"
  EC :: "certificate option"
  AT :: "certificate option"
  Directory :: string
  AA_url :: string
  EA_url :: string
  Certs :: "bytes \<rightharpoonup> certificate"
  Engine :: "engine option"
  P11URI :: "string option"

text \<open>
  The world: the files by path, the seconds elapsed since 2004-01-01 (what
  \<open>utcnow() - datetime(2004,1,1)\<close> gives, truncated), the number of keys drawn from the
  random source so far, and the log.
\<close>

record world =
  files :: "string \<rightharpoonup> bytes"
  now :: int
  rng :: nat
  trace :: "event list"

text \<open>A value handed to, or returned by, the \<open>asn1tools\<close> codec.\<close>

datatype asn1val =
    VInt int
  | VBytes bytes
  | VStr string
  | VBits bytes nat
  | VChoice string asn1val
  | VList "asn1val list"
  | VDict "(string \<times> asn1val) list"

record secure_message =
  Payload :: bytes
  SignerDigest :: bytes

record env =
  ec_generate_private_key :: "nat \<Rightarrow> private_key"
  private_bytes :: "private_key \<Rightarrow> bytes \<Rightarrow> bytes"
  load_der_private_key :: "bytes \<Rightarrow> bytes \<Rightarrow> string + private_key"
  engine_load_private_key :: "engine \<Rightarrow> string \<Rightarrow> private_key option"
  ecdsa_sign :: "private_key \<Rightarrow> bytes \<Rightarrow> string + int \<times> int"
  asn1_encode :: "string \<Rightarrow> asn1val \<Rightarrow> string + bytes"
  asn1_decode :: "string \<Rightarrow> bytes \<Rightarrow> string + string \<times> asn1val"
  encode_der_length :: "nat \<Rightarrow> bytes"
  encode_der_SEQUENCE :: "bytes \<Rightarrow> bytes"
  requests_put :: "string \<Rightarrow> bytes \<Rightarrow> string + bytes"
  requests_get :: "string \<Rightarrow> string + bytes"
  CITS103097v121Certificate :: "bytes \<Rightarrow> string + certificate"
  CITS103097v121SecureMessage :: "bytes \<Rightarrow> string + secure_message"
  verify_signature :: "secure_message \<Rightarrow> certificate \<Rightarrow> string + unit"

subsection \<open>Paths, hexadecimal, files\<close>

text \<open>\<open>os.path.join\<close> on POSIX, for two components.\<close>

definition os_path_join :: "string \<Rightarrow> string \<Rightarrow> string" where
  "os_path_join a b =
     (if b \<noteq> [] \<and> hd b = CHR ''/'' then b
      else if a = [] \<or> last a = CHR ''/'' then a @ b
      else a @ ''/'' @ b)"

definition hex_digit :: "nat \<Rightarrow> char" where
  "hex_digit n = ''0123456789abcdef'' ! (n mod 16)"

text \<open>\<open>bytes.hex()\<close>: two lower-case digits for each byte.\<close>

fun hex :: "bytes \<Rightarrow> string" where
  "hex [] = []"
| "hex (b # bs) = hex_digit (unat b div 16) # hex_digit (unat b mod 16) # hex bs"

text \<open>
  \<open>open(path, 'rb').read()\<close> raises \<open>FileNotFoundError\<close> when there is no file at the
  path; \<open>open(path, 'wb').write(x)\<close> creates or replaces the file; \<open>os.unlink\<close> raises
  \<open>FileNotFoundError\<close> when there is nothing to remove.
\<close>

definition log :: "event \<Rightarrow> world \<Rightarrow> world" where
  "log e w = w\<lparr>trace := trace w @ [e]\<rparr>"

definition read_file :: "string \<Rightarrow> world \<Rightarrow> (exn + bytes) \<times> world" where
  "read_file p w =
     (case files w p of
        None \<Rightarrow> (Inl (FileNotFoundError p), log (FileRead p) w)
      | Some x \<Rightarrow> (Inr x, log (FileRead p) w))"

definition write_file :: "string \<Rightarrow> bytes \<Rightarrow> world \<Rightarrow> world" where
  "write_file p x w = log (FileWrite p x) (w\<lparr>files := (files w)(p \<mapsto> x)\<rparr>)"

definition unlink :: "string \<Rightarrow> world \<Rightarrow> (exn + unit) \<times> world" where
  "unlink p w =
     (case files w p of
        None \<Rightarrow> (Inl (FileNotFoundError p), log (FileUnlink p) w)
      | Some x \<Rightarrow> (Inr (), log (FileUnlink p) (w\<lparr>files := (files w)(p := None)\<rparr>)))"

definition password :: bytes where
  "password = map (of_nat \<circ> of_char) ''strong-and-secret :-)''"

subsection \<open>\<open>ITSS.generate_private_key\<close>\<close>

definition generate_private_key ::
  "env \<Rightarrow> ITSS \<Rightarrow> world \<Rightarrow> unit outcome \<times> ITSS \<times> world" where
  "generate_private_key env self w =
     (case Engine self of
        None \<Rightarrow>
          (let k = ec_generate_private_key env (rng w);
               w1 = w\<lparr>rng := rng w + 1\<rparr>;
               self1 = self\<lparr>PrivateKey := Some k\<rparr>;
               self2 = self1\<lparr>EC := None\<rparr>;
               self3 = self2\<lparr>AT := None\<rparr>
           in (Returned (), self3, w1))
      | Some e \<Rightarrow> (Raised (RuntimeError ''Not implemented yet!''), self, w))"

subsection \<open>\<open>ITSS.store\<close>\<close>

text \<open>The key file: written unless the key is held by the engine.\<close>

definition store_key ::
  "env \<Rightarrow> ITSS \<Rightarrow> world \<Rightarrow> (exn + unit) \<times> world" where
  "store_key env self w =
     (case Engine self of
        Some e \<Rightarrow> (Inr (), w)
      | None \<Rightarrow>
          (case PrivateKey self of
             None \<Rightarrow> (Inl AttributeError, w)
           | Some k \<Rightarrow>
               (Inr (), write_file (os_path_join (Directory self) ''itss.key'')
                          (private_bytes env k password) w)))"

text \<open>One certificate file: written when the field is set, unlinked when it is not.\<close>

definition store_cert ::
  "certificate option \<Rightarrow> string \<Rightarrow> world \<Rightarrow> (exn + unit) \<times> world" where
  "store_cert c p w =
     (case c of
        Some cert \<Rightarrow> (Inr (), write_file p (Data cert) w)
      | None \<Rightarrow> unlink p w)"

definition store :: "env \<Rightarrow> ITSS \<Rightarrow> world \<Rightarrow> unit outcome \<times> ITSS \<times> world" where
  "store env self w =
     (case store_key env self w of
        (Inl e, w1) \<Rightarrow> (Raised e, self, w1)
      | (Inr u, w1) \<Rightarrow>
          (case store_cert (EC self) (os_path_join (Directory self) ''itss.ec'') w1 of
             (Inl e, w2) \<Rightarrow> (Raised e, self, w2)
           | (Inr u, w2) \<Rightarrow>
               (case store_cert (AT self) (os_path_join (Directory self) ''itss.at'') w2 of
                  (Inl e, w3) \<Rightarrow> (Raised e, self, w3)
                | (Inr u, w3) \<Rightarrow> (Returned (), self, w3))))"

subsection \<open>\<open>ITSS.load\<close>\<close>

text \<open>
  One of the two blocks \<open>try: raw = open(p,'rb').read() / except FileNotFoundError: pass /
  else: field = CITS103097v121Certificate(raw)\<close>. The result is \<open>None\<close> after \<open>pass\<close>
  and the certificate after \<open>else\<close>; the constructor runs outside the \<open>try\<close>, so what
  it raises is raised by \<open>load\<close>.
\<close>

definition load_cert ::
  "env \<Rightarrow> string \<Rightarrow> world \<Rightarrow> (exn + certificate option) \<times> world" where
  "load_cert env p w =
     (case read_file p w of
        (Inl e, w1) \<Rightarrow>
          (case e of
             FileNotFoundError q \<Rightarrow> (Inr None, w1)
           | _ \<Rightarrow> (Inl e, w1))
      | (Inr raw, w1) \<Rightarrow>
          (case CITS103097v121Certificate env raw of
             Inl m \<Rightarrow> (Inl (LibraryError m), w1)
           | Inr c \<Rightarrow> (Inr (Some c), w1)))"

text \<open>The part of \<open>load\<close> after the key is set: the EC block, then the AT block.\<close>

definition load_certs ::
  "env \<Rightarrow> ITSS \<Rightarrow> world \<Rightarrow> bool outcome \<times> ITSS \<times> world" where
  "load_certs env self w =
     (case load_cert env (os_path_join (Directory self) ''itss.ec'') w of
        (Inl e, w1) \<Rightarrow> (Raised e, self, w1)
      | (Inr ec, w1) \<Rightarrow>
          (let self1 = (case ec of None \<Rightarrow> self | Some c \<Rightarrow> self\<lparr>EC := Some c\<rparr>)
           in case load_cert env (os_path_join (Directory self1) ''itss.at'') w1 of
                (Inl e, w2) \<Rightarrow> (Raised e, self1, w2)
              | (Inr at, w2) \<Rightarrow>
                  (let self2 = (case at of None \<Rightarrow> self1 | Some c \<Rightarrow> self1\<lparr>AT := Some c\<rparr>)
                   in (Returned True, self2, w2))))"

definition load :: "env \<Rightarrow> ITSS \<Rightarrow> world \<Rightarrow> bool outcome \<times> ITSS \<times> world" where
  "load env self w =
     (if PrivateKey self \<noteq> None then (Raised AssertionError, self, w)
      else if EC self \<noteq> None then (Raised AssertionError, self, w)
      else if AT self \<noteq> None then (Raised AssertionError, self, w)
      else
        (case Engine self of
           Some e \<Rightarrow>
             (let p11uri = ''pkcs11:object=test-key;type=private''
              in case engine_load_private_key env e p11uri of
                   None \<Rightarrow> (Raised (LibraryError ''openssl_assert''), self, w)
                 | Some pkey \<Rightarrow>
                     load_certs env (self\<lparr>P11URI := Some p11uri, PrivateKey := Some pkey\<rparr>) w)
         | None \<Rightarrow>
             (case read_file (os_path_join (Directory self) ''itss.key'') w of
                (Inl e, w1) \<Rightarrow> (Returned False, self, w1)
              | (Inr raw, w1) \<Rightarrow>
                  (case load_der_private_key env raw password of
                     Inl m \<Rightarrow> (Returned False, self, w1)
                   | Inr k \<Rightarrow> load_certs env (self\<lparr>PrivateKey := Some k\<rparr>) w1))))"

subsection \<open>\<open>ITSS.store_certificate\<close> and \<open>ITSS.get_certificate_by_digest\<close>\<close>

definition cert_fname :: "ITSS \<Rightarrow> bytes \<Rightarrow> string" where
  "cert_fname self digest =
     os_path_join (os_path_join (Directory self) ''certs'') (hex digest @ ''.cert'')"

definition store_certificate :: "ITSS \<Rightarrow> certificate \<Rightarrow> world \<Rightarrow> world" where
  "store_certificate self cert w = write_file (cert_fname self (Digest cert)) (Data cert) w"

definition get_certificate_by_digest ::
  "env \<Rightarrow> bytes \<Rightarrow> ITSS \<Rightarrow> world \<Rightarrow> certificate outcome \<times> ITSS \<times> world" where
  "get_certificate_by_digest env digest self w =
     (case Certs self digest of
        Some c \<Rightarrow> (Returned c, self, w)
      | None \<Rightarrow>
          (case read_file (cert_fname self digest) w of
             (Inr data, w1) \<Rightarrow>
               (case CITS103097v121Certificate env data of
                  Inl m \<Rightarrow> (Raised (LibraryError m), self, w1)
                | Inr cert \<Rightarrow>
                    (Returned cert, self\<lparr>Certs := (Certs self)(digest \<mapsto> cert)\<rparr>, w1))
           | (Inl e, w1) \<Rightarrow>
               (case e of
                  FileNotFoundError q \<Rightarrow>
                    (let url = AA_url self @ ''/cits/digest/'' @ hex digest;
                         w2 = log (HttpGet url) w1
                     in case requests_get env url of
                          Inl m \<Rightarrow> (Raised (LibraryError m), self, w2)
                        | Inr content \<Rightarrow>
                            (case CITS103097v121Certificate env content of
                               Inl m \<Rightarrow> (Raised (LibraryError m), self, w2)
                             | Inr cert \<Rightarrow>
                                 (Returned cert,
                                  self\<lparr>Certs := (Certs self)(digest \<mapsto> cert)\<rparr>,
                                  store_certificate self cert w2)))
                | _ \<Rightarrow> (Raised e, self, w1))))"

subsection \<open>The request records\<close>

definition ascii :: "string \<Rightarrow> bytes" where
  "ascii s = map (of_nat \<circ> of_char) s"

text \<open>\<open>EnrolmentRequest['signerEnrolRequest']\<close> of \<open>enroll\<close>.\<close>

definition signerEnrolRequest :: asn1val where
  "signerEnrolRequest = VDict
     [(''type'', VInt 3),
      (''digest'', VBytes (ascii ''12345678'')),
      (''id'', VBytes (ascii ''This is the identification of the signer''))]"

text \<open>
  \<open>EnrolmentRequest['enrolCertRequest']\<close> of \<open>enroll\<close>, as a function of the locals the
  dictionary literal is evaluated with: \<open>requestTime\<close>, \<open>expiration\<close> and the two
  public points.
\<close>

definition enrolCertRequest :: "int \<Rightarrow> int \<Rightarrow> int \<times> int \<Rightarrow> int \<times> int \<Rightarrow> asn1val" where
  "enrolCertRequest requestTime expiration verification_public_numbers
     response_encryption_public_numbers = VDict
     [(''versionAndType'', VInt 2),
      (''requestTime'', VInt requestTime),
      (''subjectType'', VInt 3),
      (''cf'', VBits [0] 0),
      (''enrolCertSpecificData'', VDict
         [(''eaId'', VStr ''EAName''),
          (''permittedSubjectTypes'', VInt 0),
          (''permissions'', VDict [(''type'', VInt 1), (''permissions-list'', VList [])]),
          (''region'', VDict [(''region-type'', VInt 0)])]),
      (''expiration'', VInt requestTime),
      (''verificationKey'', VDict
         [(''algorithm'', VInt 1),
          (''public-key'', VDict
             [(''type'', VStr ''uncompressed''),
              (''x'', VChoice ''ecdsa-nistp256-with-sha256-X''
                        (VInt (fst verification_public_numbers))),
              (''y'', VChoice ''ecdsa-nistp256-with-sha256-Y''
                        (VInt (snd verification_public_numbers)))])]),
      (''responseEncryptionKey'', VDict
         [(''algorithm'', VInt 1),
          (''public-key'', VDict
             [(''type'', VStr ''compressedLsbY0''),
              (''x'', VChoice ''ecdsa-nistp256-with-sha256-X''
                        (VInt (fst response_encryption_public_numbers)))])])]"

text \<open>\<open>AuthorizationRequest['signerAuthRequest']\<close> of \<open>authorize\<close>.\<close>

definition signerAuthRequest :: "bytes \<Rightarrow> asn1val" where
  "signerAuthRequest digest = VDict
     [(''type'', VInt 3),
      (''digest'', VBytes digest),
      (''id'', VBytes [])]"

text \<open>\<open>AuthorizationRequest['authCertRequest']\<close> of \<open>authorize\<close>.\<close>

definition authCertRequest :: "int \<Rightarrow> asn1val" where
  "authCertRequest requestTime = VChoice ''anonRequest'' (VDict
     [(''versionAndType'', VInt 2),
      (''requestTime'', VInt requestTime),
      (''subjectType'', VInt 0),
      (''cf'', VBits [0] 0),
      (''authCertSpecificData'', VDict
         [(''additional-data'', VBytes (ascii ''ahoj'')),
          (''permissions'', VDict [(''type'', VInt 1), (''permissions-list'', VList [])]),
          (''region'', VDict [(''region-type'', VInt 0)])]),
      (''responseEncryptionKey'', VDict
         [(''algorithm'', VInt 1),
          (''public-key'', VDict
             [(''type'', VStr ''compressedLsbY0''),
              (''x'', VChoice ''ecdsa-nistp256-with-sha256-X'' (VInt 0))])])])"

text \<open>The value both methods store under the key \<open>'signature'\<close>.\<close>

definition signature_record :: "int \<Rightarrow> int \<Rightarrow> asn1val" where
  "signature_record r s = VDict
     [(''r'', VDict
         [(''type'', VStr ''xCoordinateOnly''),
          (''x'', VChoice ''ecdsa-nistp256-with-sha256-X'' (VInt r))]),
      (''s'', VChoice ''ecdsa-nistp256-with-sha256-s'' (VInt s))]"

text \<open>\<open>struct.pack(">B", tag) + self.asn1.encode(name, v)[1:]\<close>.\<close>

definition tagged :: "env \<Rightarrow> byte \<Rightarrow> string \<Rightarrow> asn1val \<Rightarrow> exn + bytes" where
  "tagged env tag name v =
     (case asn1_encode env name v of
        Inl m \<Rightarrow> Inl (LibraryError m)
      | Inr b \<Rightarrow> Inr ([tag] @ drop 1 b))"

text \<open>\<open>d[k]\<close> on a decoded value.\<close>

definition subscript :: "asn1val \<Rightarrow> string \<Rightarrow> exn + asn1val" where
  "subscript d k =
     (case d of
        VDict kvs \<Rightarrow> (case map_of kvs k of None \<Rightarrow> Inl (KeyError k) | Some v \<Rightarrow> Inr v)
      | _ \<Rightarrow> Inl TypeError)"

text \<open>
  \<open>itss.CITS103097v121Certificate(response[1]['signedCertChain']['rootCertificate'])\<close>.
\<close>

definition root_certificate :: "env \<Rightarrow> asn1val \<Rightarrow> exn + certificate" where
  "root_certificate env body =
     (case subscript body ''signedCertChain'' of
        Inl e \<Rightarrow> Inl e
      | Inr chain \<Rightarrow>
          (case subscript chain ''rootCertificate'' of
             Inl e \<Rightarrow> Inl e
           | Inr (VBytes raw) \<Rightarrow>
               (case CITS103097v121Certificate env raw of
                  Inl m \<Rightarrow> Inl (LibraryError m)
                | Inr c \<Rightarrow> Inr c)
           | Inr _ \<Rightarrow> Inl TypeError))"

subsection \<open>\<open>ITSS.enroll\<close>\<close>

text \<open>
  The statements of \<open>enroll\<close> from the signature on: sign \<open>encoded_er\<close>, append the
  signature block, wrap, send, read the response.
\<close>

definition enroll_send ::
  "env \<Rightarrow> private_key \<Rightarrow> bytes \<Rightarrow> ITSS \<Rightarrow> world \<Rightarrow> unit outcome \<times> ITSS \<times> world" where
  "enroll_send env pk encoded_er self w =
     (let w1 = log (Sign encoded_er) w
      in case ecdsa_sign env pk encoded_er of
           Inl m \<Rightarrow> (Raised (LibraryError m), self, w1)
         | Inr (r, s) \<Rightarrow>
             (case tagged env 0xa2 ''Signature'' (signature_record r s) of
                Inl e \<Rightarrow> (Raised e, self, w1)
              | Inr sig_block \<Rightarrow>
                  (let encoded_er1 = encoded_er @ sig_block;
                       encoded_er2 = encode_der_SEQUENCE env encoded_er1;
                       url = EA_url self @ ''/cits/ts_102941_v111/ea/enroll'';
                       w2 = log (HttpPut url encoded_er2) w1
                   in case requests_put env url encoded_er2 of
                        Inl m \<Rightarrow> (Raised (LibraryError m), self, w2)
                      | Inr content \<Rightarrow>
                          (case asn1_decode env ''EnrolmentResponse'' content of
                             Inl m \<Rightarrow> (Raised (LibraryError m), self, w2)
                           | Inr (variant, body) \<Rightarrow>
                               (if variant \<noteq> ''successfulEnrolment''
                                then (Exited 1, self, log (Print ''Enrollment failed!'') w2)
                                else
                                  (let w3 = log (Print ''Enrollment finished successfuly.'') w2
                                   in case root_certificate env body of
                                        Inl e \<Rightarrow> (Raised e, self, w3)
                                      | Inr c \<Rightarrow>
                                          (Returned (), self\<lparr>EC := Some c\<rparr>, w3)))))))"

definition enroll :: "env \<Rightarrow> ITSS \<Rightarrow> world \<Rightarrow> unit outcome \<times> ITSS \<times> world" where
  "enroll env self w =
     (case PrivateKey self of
        None \<Rightarrow> (Raised AttributeError, self, w)
      | Some pk \<Rightarrow>
          (let verification_public_numbers = (pub_x pk, pub_y pk);
               response_encryption_private_key = ec_generate_private_key env (rng w);
               w1 = w\<lparr>rng := rng w + 1\<rparr>;
               response_encryption_public_numbers =
                 (pub_x response_encryption_private_key, pub_y response_encryption_private_key);
               requestTime = now w1;
               expiration = requestTime + 3600
           in case tagged env 0xa0 ''SignerIdentifier'' signerEnrolRequest of
                Inl e \<Rightarrow> (Raised e, self, w1)
              | Inr signer_block \<Rightarrow>
                  (case tagged env 0xa1 ''ToBeSignedEnrolmentCertificateRequest''
                          (enrolCertRequest requestTime expiration verification_public_numbers
                             response_encryption_public_numbers) of
                     Inl e \<Rightarrow> (Raised e, self, w1)
                   | Inr tbs_block \<Rightarrow>
                       enroll_send env pk (([] @ signer_block) @ tbs_block) self w1)))"

subsection \<open>\<open>ITSS.authorize\<close>\<close>

definition authorize_send ::
  "env \<Rightarrow> private_key \<Rightarrow> bytes \<Rightarrow> ITSS \<Rightarrow> world \<Rightarrow> unit outcome \<times> ITSS \<times> world" where
  "authorize_send env pk encoded_ar self w =
     (let w1 = log (Sign encoded_ar) w
      in case ecdsa_sign env pk encoded_ar of
           Inl m \<Rightarrow> (Raised (LibraryError m), self, w1)
         | Inr (r, s) \<Rightarrow>
             (case tagged env 0xa2 ''Signature'' (signature_record r s) of
                Inl e \<Rightarrow> (Raised e, self, w1)
              | Inr sig_block \<Rightarrow>
                  (let encoded_ar1 = encoded_ar @ sig_block;
                       encoded_ar2 = encode_der_SEQUENCE env encoded_ar1;
                       url = AA_url self @ ''/cits/ts_102941_v111/aa/approve'';
                       w2 = log (HttpPut url encoded_ar2) w1
                   in case requests_put env url encoded_ar2 of
                        Inl m \<Rightarrow> (Raised (LibraryError m), self, w2)
                      | Inr content \<Rightarrow>
                          (case asn1_decode env ''AuthorizationResponse'' content of
                             Inl m \<Rightarrow> (Raised (LibraryError m), self, w2)
                           | Inr (variant, body) \<Rightarrow>
                               (if variant \<notin> {''successfulExplicitAuthorization'',
                                               ''successfulImplicitAuthorization''}
                                then (Exited 1, self, log (Print ''Authorization failed!'') w2)
                                else
                                  (let w3 = log (Print ''Authorization ticket obtained successfuly.'') w2
                                   in case root_certificate env body of
                                        Inl e \<Rightarrow> (Raised e, self, w3)
                                      | Inr c \<Rightarrow>
                                          (Returned (), self\<lparr>AT := Some c\<rparr>, w3)))))))"

definition authorize :: "env \<Rightarrow> ITSS \<Rightarrow> world \<Rightarrow> unit outcome \<times> ITSS \<times> world" where
  "authorize env self w =
     (let requestTime = now w;
          expiration = requestTime + 3600
      in case EC self of
           None \<Rightarrow> (Raised AttributeError, self, w)
         | Some ec \<Rightarrow>
             (case tagged env 0xa0 ''SignerIdentifier'' (signerAuthRequest (Digest ec)) of
                Inl e \<Rightarrow> (Raised e, self, w)
              | Inr signer_block \<Rightarrow>
                  (case tagged env 0xa0 ''AuthCertRequest'' (authCertRequest requestTime) of
                     Inl e \<Rightarrow> (Raised e, self, w)
                   | Inr acr \<Rightarrow>
                       (let encoded_ar =
                              ([] @ signer_block) @
                              ([0xa1] @ encode_der_length env (length acr) @ acr)
                        in case PrivateKey self of
                             None \<Rightarrow> (Raised AttributeError, self, w)
                           | Some pk \<Rightarrow> authorize_send env pk encoded_ar self w))))"

subsection \<open>The inbound handler\<close>

text \<open>
  Modelled from the spec: \<open>CITS103097v121SecureMessage.verify\<close>, a method of package
  \<open>itss\<close> that is not in the source file. The spec's inbound activity "extracts the
  claimed signer digest, resolves the signer Certificate via CertificateResolver
  (possibly incurring network I/O), verifies the signature against the resolved
  certificate", and the handler prints what \<open>verify\<close> returns as the signer. The check
  of the signature itself is the parameter \<open>verify_signature\<close>.
\<close>

definition verify ::
  "env \<Rightarrow> secure_message \<Rightarrow> ITSS \<Rightarrow> world \<Rightarrow> certificate outcome \<times> ITSS \<times> world" where
  "verify env msg self w =
     (case get_certificate_by_digest env (SignerDigest msg) self w of
        (Returned cert, self1, w1) \<Rightarrow>
          (case verify_signature env msg cert of
             Inl m \<Rightarrow> (Raised (LibraryError m), self1, w1)
           | Inr u \<Rightarrow> (Returned cert, self1, w1))
      | (Raised e, self1, w1) \<Rightarrow> (Raised e, self1, w1)
      | (Exited n, self1, w1) \<Rightarrow> (Exited n, self1, w1))"

text \<open>
  \<open>MyG5Simulator.datagram_received\<close>, on the object \<open>itss_obj\<close> of \<open>main\<close>. The clause
  \<open>except Exception\<close> takes every \<open>Raised\<close> outcome and lets \<open>SystemExit\<close> through.
\<close>

definition datagram_received ::
  "env \<Rightarrow> bytes \<Rightarrow> ITSS \<Rightarrow> world \<Rightarrow> unit outcome \<times> ITSS \<times> world" where
  "datagram_received env data itss_obj w =
     (case CITS103097v121SecureMessage env data of
        Inl m \<Rightarrow> (Returned (), itss_obj, log (Print ''Error when processing message'') w)
      | Inr msg \<Rightarrow>
          (case verify env msg itss_obj w of
             (Returned signer_certificate, self1, w1) \<Rightarrow>
               (Returned (), self1, log (Print ''Received verified message'') w1)
           | (Raised e, self1, w1) \<Rightarrow>
               (Returned (), self1, log (Print ''Error when processing message'') w1)
           | (Exited n, self1, w1) \<Rightarrow> (Exited n, self1, w1)))"

subsection \<open>Reading the log\<close>

text \<open>The messages handed to \<open>PrivateKey.sign\<close>, and the bodies of the PUT requests.\<close>

definition signed_messages :: "event list \<Rightarrow> bytes list" where
  "signed_messages es = concat (map (\<lambda>e. case e of Sign m \<Rightarrow> [m] | _ \<Rightarrow> []) es)"

definition put_bodies :: "event list \<Rightarrow> bytes list" where
  "put_bodies es = concat (map (\<lambda>e. case e of HttpPut u b \<Rightarrow> [b] | _ \<Rightarrow> []) es)"

text \<open>The lines written by \<open>print\<close>.\<close>

definition printed :: "event list \<Rightarrow> string list" where
  "printed es = concat (map (\<lambda>e. case e of Print s \<Rightarrow> [s] | _ \<Rightarrow> []) es)"

subsection \<open>A concrete object, world and library\<close>

text \<open>
  The attributes as \<open>__init__\<close> assigns them; \<open>engine\<close> is the value of \<open>self.Engine\<close>
  (\<open>None\<close> for a key held in software, the handle of the loaded engine otherwise).
\<close>

definition new_ITSS :: "string \<Rightarrow> string \<Rightarrow> string \<Rightarrow> engine option \<Rightarrow> ITSS" where
  "new_ITSS directory ea_url aa_url engine =
     \<lparr>PrivateKey = None, EC = None, AT = None, Directory = directory,
      AA_url = aa_url, EA_url = ea_url, Certs = Map.empty, Engine = engine,
      P11URI = None\<rparr>"

definition new_world :: "int \<Rightarrow> world" where
  "new_world t = \<lparr>files = Map.empty, now = t, rng = 0, trace = []\<rparr>"

text \<open>
  Stand-ins for the libraries, small enough to evaluate: the codec writes a leading byte
  and the name of the type, a key file decodes unless it is empty, a certificate parses
  unless it is empty, a message needs eight bytes of signer digest.
\<close>

definition stub_env :: env where
  "stub_env =
     \<lparr>ec_generate_private_key =
        (\<lambda>n. \<lparr>private_value = int n + 1, pub_x = 2 * int n, pub_y = 2 * int n + 1\<rparr>),
      private_bytes = (\<lambda>k pw. [of_int (private_value k)]),
      load_der_private_key =
        (\<lambda>raw pw. case raw of
            [] \<Rightarrow> Inl ''could not deserialize key data''
          | b # bs \<Rightarrow> Inr \<lparr>private_value = uint b, pub_x = 2 * uint b, pub_y = 2 * uint b + 1\<rparr>),
      engine_load_private_key = (\<lambda>e uri. None),
      ecdsa_sign = (\<lambda>k m. Inr (int (length m), private_value k)),
      asn1_encode = (\<lambda>name v. Inr (0x30 # ascii name)),
      asn1_decode =
        (\<lambda>name b. case b of
            [] \<Rightarrow> Inl ''decode error''
          | x # xs \<Rightarrow>
              Inr (''successfulEnrolment'',
                   VDict [(''signedCertChain'', VDict [(''rootCertificate'', VBytes b)])])),
      encode_der_length = (\<lambda>n. [of_nat n]),
      encode_der_SEQUENCE = (\<lambda>b. 0x30 # of_nat (length b) # b),
      requests_put = (\<lambda>url body. Inr body),
      requests_get = (\<lambda>url. Inr (ascii url)),
      CITS103097v121Certificate =
        (\<lambda>raw. if raw = [] then Inl ''empty certificate''
               else Inr \<lparr>Digest = take 8 raw, Data = raw\<rparr>),
      CITS103097v121SecureMessage =
        (\<lambda>data. if length data < 8 then Inl ''truncated message''
                else Inr \<lparr>Payload = drop 8 data, SignerDigest = take 8 data\<rparr>),
      verify_signature = (\<lambda>msg cert. Inr ())\<rparr>"

section \<open>Properties\<close>

subsection \<open>Helper facts\<close>

lemma trace_log: "trace (log e w) = trace w @ [e]"
  by (simp add: log_def)

lemma get_certificate_by_digest_no_exit:
  "get_certificate_by_digest env d self w \<noteq> (Exited n, s', w')"
  by (simp add: get_certificate_by_digest_def Let_def
        split: option.splits prod.splits sum.splits exn.splits)

lemma verify_no_exit: "verify env msg self w \<noteq> (Exited n, s', w')"
  by (auto simp add: verify_def get_certificate_by_digest_no_exit
        split: prod.splits outcome.splits sum.splits)

lemma load_cert_no_assert: "load_cert env p w \<noteq> (Inl AssertionError, w')"
  by (auto simp add: load_cert_def read_file_def
        split: option.splits prod.splits sum.splits exn.splits)

lemma load_certs_no_assert: "fst (load_certs env self w) \<noteq> Raised AssertionError"
  by (auto simp add: load_certs_def Let_def load_cert_no_assert
        split: option.splits prod.splits sum.splits)

subsection \<open>\<open>generate_private_key\<close>\<close>

text \<open>
  C9. When a hardware engine is configured (\<open>Engine\<close> is not \<open>None\<close>),
  \<open>generate_private_key\<close> raises \<open>RuntimeError\<close>, and the object and the world are what
  they were before the call: \<open>PrivateKey\<close>, \<open>EC\<close> and \<open>AT\<close> keep their values, the
  clearing statements are not reached.
\<close>

theorem generate_private_key_engine_raises_unchanged:
  "Engine self = Some e \<Longrightarrow>
   generate_private_key env self w =
     (Raised (RuntimeError ''Not implemented yet!''), self, w)"
  by (simp add: generate_private_key_def)

theorem generate_private_key_engine_raises_unchanged_witness:
  "generate_private_key stub_env
     ((new_ITSS ''/var/itss'' ''http://ea'' ''http://aa'' (Some 1))
        \<lparr>EC := Some \<lparr>Digest = [1], Data = [2]\<rparr>\<rparr>) (new_world 0) =
     (Raised (RuntimeError ''Not implemented yet!''),
      (new_ITSS ''/var/itss'' ''http://ea'' ''http://aa'' (Some 1))
        \<lparr>EC := Some \<lparr>Digest = [1], Data = [2]\<rparr>\<rparr>, new_world 0)"
  using generate_private_key_engine_raises_unchanged
          [of "(new_ITSS ''/var/itss'' ''http://ea'' ''http://aa'' (Some 1))
                 \<lparr>EC := Some \<lparr>Digest = [1], Data = [2]\<rparr>\<rparr>" 1 stub_env "new_world 0"]
  by (simp add: new_ITSS_def)

text \<open>
  C4, as stated, fails: with an engine configured and \<open>EC\<close> and \<open>AT\<close> set, both are still
  set after the call.
\<close>

theorem generate_private_key_clears_counterexample:
  "EC (fst (snd (generate_private_key stub_env
       ((new_ITSS ''/var/itss'' ''http://ea'' ''http://aa'' (Some 1))
          \<lparr>EC := Some \<lparr>Digest = [1], Data = [2]\<rparr>, AT := Some \<lparr>Digest = [3], Data = [4]\<rparr>\<rparr>)
       (new_world 0)))) = Some \<lparr>Digest = [1], Data = [2]\<rparr> \<and>
   AT (fst (snd (generate_private_key stub_env
       ((new_ITSS ''/var/itss'' ''http://ea'' ''http://aa'' (Some 1))
          \<lparr>EC := Some \<lparr>Digest = [1], Data = [2]\<rparr>, AT := Some \<lparr>Digest = [3], Data = [4]\<rparr>\<rparr>)
       (new_world 0)))) = Some \<lparr>Digest = [3], Data = [4]\<rparr>"
  by (simp add: generate_private_key_def new_ITSS_def)

text \<open>
  C4, amended. For every prior state of \<open>EC\<close> and \<open>AT\<close>: when no engine is configured,
  \<open>generate_private_key\<close> returns, \<open>PrivateKey\<close> holds the generated key and both \<open>EC\<close>
  and \<open>AT\<close> are unset; when an engine is configured the call raises \<open>RuntimeError\<close> and
  \<open>EC\<close> and \<open>AT\<close> are what they were.
\<close>

theorem generate_private_key_clears_without_engine:
  "(Engine self = None \<longrightarrow>
      fst (generate_private_key env self w) = Returned () \<and>
      PrivateKey (fst (snd (generate_private_key env self w))) =
        Some (ec_generate_private_key env (rng w)) \<and>
      EC (fst (snd (generate_private_key env self w))) = None \<and>
      AT (fst (snd (generate_private_key env self w))) = None) \<and>
   (Engine self \<noteq> None \<longrightarrow>
      fst (generate_private_key env self w) = Raised (RuntimeError ''Not implemented yet!'') \<and>
      EC (fst (snd (generate_private_key env self w))) = EC self \<and>
      AT (fst (snd (generate_private_key env self w))) = AT self)"
  by (auto simp add: generate_private_key_def Let_def)

theorem generate_private_key_clears_without_engine_witness:
  "fst (generate_private_key stub_env
     ((new_ITSS ''/var/itss'' ''http://ea'' ''http://aa'' None)
        \<lparr>EC := Some \<lparr>Digest = [1], Data = [2]\<rparr>\<rparr>) (new_world 0)) = Returned () \<and>
   EC (fst (snd (generate_private_key stub_env
     ((new_ITSS ''/var/itss'' ''http://ea'' ''http://aa'' None)
        \<lparr>EC := Some \<lparr>Digest = [1], Data = [2]\<rparr>\<rparr>) (new_world 0)))) = None \<and>
   fst (generate_private_key stub_env
     ((new_ITSS ''/var/itss'' ''http://ea'' ''http://aa'' (Some 1))
        \<lparr>EC := Some \<lparr>Digest = [1], Data = [2]\<rparr>\<rparr>) (new_world 0)) =
     Raised (RuntimeError ''Not implemented yet!'')"
  using generate_private_key_clears_without_engine
          [of "(new_ITSS ''/var/itss'' ''http://ea'' ''http://aa'' None)
                 \<lparr>EC := Some \<lparr>Digest = [1], Data = [2]\<rparr>\<rparr>" stub_env "new_world 0"]
        generate_private_key_clears_without_engine
          [of "(new_ITSS ''/var/itss'' ''http://ea'' ''http://aa'' (Some 1))
                 \<lparr>EC := Some \<lparr>Digest = [1], Data = [2]\<rparr>\<rparr>" stub_env "new_world 0"]
  by (simp add: new_ITSS_def)

subsection \<open>\<open>load\<close>: the assertions\<close>

text \<open>
  C10. \<open>load\<close> asserts on entry that \<open>PrivateKey\<close>, \<open>EC\<close> and \<open>AT\<close> are \<open>None\<close>. On an
  object that holds a key or either certificate the call raises \<open>AssertionError\<close> and
  restores nothing: the object and the world are unchanged. When the three are unset,
  the assertions pass: \<open>load\<close> does not raise \<open>AssertionError\<close>.
\<close>

theorem load_asserts_fields_unset:
  "(PrivateKey self \<noteq> None \<or> EC self \<noteq> None \<or> AT self \<noteq> None \<longrightarrow>
      load env self w = (Raised AssertionError, self, w)) \<and>
   (PrivateKey self = None \<and> EC self = None \<and> AT self = None \<longrightarrow>
      fst (load env self w) \<noteq> Raised AssertionError)"
  by (auto simp add: load_def Let_def load_certs_no_assert
        split: option.splits prod.splits sum.splits)

theorem load_asserts_fields_unset_witness:
  "load stub_env
     ((new_ITSS ''/var/itss'' ''http://ea'' ''http://aa'' None)
        \<lparr>AT := Some \<lparr>Digest = [3], Data = [4]\<rparr>\<rparr>) (new_world 0) =
     (Raised AssertionError,
      (new_ITSS ''/var/itss'' ''http://ea'' ''http://aa'' None)
        \<lparr>AT := Some \<lparr>Digest = [3], Data = [4]\<rparr>\<rparr>, new_world 0) \<and>
   fst (load stub_env (new_ITSS ''/var/itss'' ''http://ea'' ''http://aa'' None) (new_world 0))
     \<noteq> Raised AssertionError"
  using load_asserts_fields_unset
          [of "(new_ITSS ''/var/itss'' ''http://ea'' ''http://aa'' None)
                 \<lparr>AT := Some \<lparr>Digest = [3], Data = [4]\<rparr>\<rparr>" stub_env "new_world 0"]
        load_asserts_fields_unset
          [of "new_ITSS ''/var/itss'' ''http://ea'' ''http://aa'' None" stub_env "new_world 0"]
  by (simp add: new_ITSS_def)

subsection \<open>The certificate cache\<close>

text \<open>
  C7. If \<open>get_certificate_by_digest\<close> returns a certificate for a digest, a second call
  with the same digest returns the same certificate (same digest, same bytes) and leaves
  the object and the world as they were: nothing is added to the log, so no file is
  read or written and no request is sent. The first call stored the certificate in
  \<open>Certs\<close>, which the second call looks at first.
\<close>

theorem get_certificate_by_digest_second_call:
  "get_certificate_by_digest env digest self w = (Returned c, self', w') \<Longrightarrow>
   get_certificate_by_digest env digest self' w' = (Returned c, self', w') \<and>
   Certs self' digest = Some c"
  by (auto simp add: get_certificate_by_digest_def Let_def
        split: option.splits prod.splits sum.splits exn.splits)

theorem get_certificate_by_digest_second_call_witness:
  "\<exists>c self' w'.
     get_certificate_by_digest stub_env [0xab]
       (new_ITSS ''/var/itss'' ''http://ea'' ''http://aa'' None) (new_world 0) =
       (Returned c, self', w') \<and>
     trace w' \<noteq> [] \<and>
     get_certificate_by_digest stub_env [0xab] self' w' = (Returned c, self', w')"
proof -
  obtain r self' w' where
    run: "get_certificate_by_digest stub_env [0xab]
            (new_ITSS ''/var/itss'' ''http://ea'' ''http://aa'' None) (new_world 0) =
          (r, self', w')"
    by (rule prod_cases3)
  from run have "\<exists>c. r = Returned c" and "trace w' \<noteq> []"
    by (auto simp add: get_certificate_by_digest_def Let_def new_ITSS_def new_world_def
          read_file_def log_def stub_env_def ascii_def store_certificate_def write_file_def
          split: if_splits)
  then obtain c where r: "r = Returned c" and t: "trace w' \<noteq> []"
    by blast
  from get_certificate_by_digest_second_call [OF run [unfolded r]] run r t
  show ?thesis by blast
qed

subsection \<open>The inbound handler\<close>

lemma printed_log_Print: "printed (trace (log (Print s) w)) = printed (trace w) @ [s]"
  by (simp add: printed_def log_def)

lemma printed_get_certificate_by_digest:
  "printed (trace (snd (snd (get_certificate_by_digest env d self w)))) = printed (trace w)"
  by (simp add: get_certificate_by_digest_def Let_def read_file_def store_certificate_def
        write_file_def log_def printed_def
        split: option.splits prod.splits sum.splits exn.splits)

lemma datagram_received_parse_failure:
  "CITS103097v121SecureMessage env data = Inl m \<Longrightarrow>
   datagram_received env data itss_obj w =
     (Returned (), itss_obj, log (Print ''Error when processing message'') w)"
  by (simp add: datagram_received_def)

lemma datagram_received_resolve_failure:
  "CITS103097v121SecureMessage env data = Inr msg \<Longrightarrow>
   get_certificate_by_digest env (SignerDigest msg) itss_obj w = (Raised e, self1, w1) \<Longrightarrow>
   datagram_received env data itss_obj w =
     (Returned (), self1, log (Print ''Error when processing message'') w1)"
  by (simp add: datagram_received_def verify_def)

lemma datagram_received_signature_failure:
  "CITS103097v121SecureMessage env data = Inr msg \<Longrightarrow>
   get_certificate_by_digest env (SignerDigest msg) itss_obj w = (Returned cert, self1, w1) \<Longrightarrow>
   verify_signature env msg cert = Inl m \<Longrightarrow>
   datagram_received env data itss_obj w =
     (Returned (), self1, log (Print ''Error when processing message'') w1)"
  by (simp add: datagram_received_def verify_def)

lemma datagram_received_verified:
  "CITS103097v121SecureMessage env data = Inr msg \<Longrightarrow>
   get_certificate_by_digest env (SignerDigest msg) itss_obj w = (Returned cert, self1, w1) \<Longrightarrow>
   verify_signature env msg cert = Inr u \<Longrightarrow>
   datagram_received env data itss_obj w =
     (Returned (), self1, log (Print ''Received verified message'') w1)"
  by (simp add: datagram_received_def verify_def)

lemma datagram_received_outcome:
  "fst (datagram_received env data itss_obj w) = Returned ()"
  by (auto simp add: datagram_received_def verify_no_exit
        split: prod.splits outcome.splits sum.splits)

lemma printed_after_resolution:
  "get_certificate_by_digest env d self w = (r, self1, w1) \<Longrightarrow>
   printed (trace w1) = printed (trace w)"
  using printed_get_certificate_by_digest [of env d self w] by simp

text \<open>
  C8. For every datagram, object and world, \<open>datagram_received\<close> returns: no exception
  leaves the handler. On each of the three failures of the claim the handler prints the
  error line and nothing else, and the message is dropped:

   \<^item> the envelope does not parse: the object is unchanged and the world gains only the
     line \<open>Error when processing message\<close>;
   \<^item> the resolution of the signer's certificate raises: the object and the world are as
     the resolution left them, plus the error line;
   \<^item> the check of the signature raises: the same, after a resolution that returned.

  In all three the printed lines are those printed before followed by the error line:
  \<open>Received verified message\<close> is not printed. It is printed, once and as the only line,
  when the three steps succeed. Since this holds in every state, it holds in the state a
  failed datagram leaves: the handler's next invocation returns again.
\<close>

theorem datagram_received_failure_logged_and_discarded:
  "fst (datagram_received env data itss_obj w) = Returned () \<and>
   fst (datagram_received env data'
          (fst (snd (datagram_received env data itss_obj w)))
          (snd (snd (datagram_received env data itss_obj w)))) = Returned () \<and>
   (CITS103097v121SecureMessage env data = Inl m \<longrightarrow>
      datagram_received env data itss_obj w =
        (Returned (), itss_obj, log (Print ''Error when processing message'') w) \<and>
      printed (trace (snd (snd (datagram_received env data itss_obj w)))) =
        printed (trace w) @ [''Error when processing message'']) \<and>
   (CITS103097v121SecureMessage env data = Inr msg \<and>
    get_certificate_by_digest env (SignerDigest msg) itss_obj w = (Raised e, self1, w1) \<longrightarrow>
      datagram_received env data itss_obj w =
        (Returned (), self1, log (Print ''Error when processing message'') w1) \<and>
      printed (trace (snd (snd (datagram_received env data itss_obj w)))) =
        printed (trace w) @ [''Error when processing message'']) \<and>
   (CITS103097v121SecureMessage env data = Inr msg \<and>
    get_certificate_by_digest env (SignerDigest msg) itss_obj w = (Returned cert, self2, w2) \<and>
    verify_signature env msg cert = Inl m' \<longrightarrow>
      datagram_received env data itss_obj w =
        (Returned (), self2, log (Print ''Error when processing message'') w2) \<and>
      printed (trace (snd (snd (datagram_received env data itss_obj w)))) =
        printed (trace w) @ [''Error when processing message'']) \<and>
   (CITS103097v121SecureMessage env data = Inr msg \<and>
    get_certificate_by_digest env (SignerDigest msg) itss_obj w = (Returned cert, self2, w2) \<and>
    verify_signature env msg cert = Inr u \<longrightarrow>
      datagram_received env data itss_obj w =
        (Returned (), self2, log (Print ''Received verified message'') w2) \<and>
      printed (trace (snd (snd (datagram_received env data itss_obj w)))) =
        printed (trace w) @ [''Received verified message''])"
proof (intro conjI impI)
  show "fst (datagram_received env data itss_obj w) = Returned ()"
    by (rule datagram_received_outcome)
  show "fst (datagram_received env data'
          (fst (snd (datagram_received env data itss_obj w)))
          (snd (snd (datagram_received env data itss_obj w)))) = Returned ()"
    by (rule datagram_received_outcome)
next
  assume p: "CITS103097v121SecureMessage env data = Inl m"
  show "datagram_received env data itss_obj w =
        (Returned (), itss_obj, log (Print ''Error when processing message'') w)"
    by (rule datagram_received_parse_failure [OF p])
  then show "printed (trace (snd (snd (datagram_received env data itss_obj w)))) =
        printed (trace w) @ [''Error when processing message'']"
    by (simp add: printed_log_Print)
next
  assume h: "CITS103097v121SecureMessage env data = Inr msg \<and>
    get_certificate_by_digest env (SignerDigest msg) itss_obj w = (Raised e, self1, w1)"
  then have p: "CITS103097v121SecureMessage env data = Inr msg"
    and g: "get_certificate_by_digest env (SignerDigest msg) itss_obj w = (Raised e, self1, w1)"
    by simp_all
  show "datagram_received env data itss_obj w =
        (Returned (), self1, log (Print ''Error when processing message'') w1)"
    by (rule datagram_received_resolve_failure [OF p g])
  then show "printed (trace (snd (snd (datagram_received env data itss_obj w)))) =
        printed (trace w) @ [''Error when processing message'']"
    by (simp add: printed_log_Print printed_after_resolution [OF g])
next
  assume h: "CITS103097v121SecureMessage env data = Inr msg \<and>
    get_certificate_by_digest env (SignerDigest msg) itss_obj w = (Returned cert, self2, w2) \<and>
    verify_signature env msg cert = Inl m'"
  then have p: "CITS103097v121SecureMessage env data = Inr msg"
    and g: "get_certificate_by_digest env (SignerDigest msg) itss_obj w =
              (Returned cert, self2, w2)"
    and v: "verify_signature env msg cert = Inl m'"
    by simp_all
  show "datagram_received env data itss_obj w =
        (Returned (), self2, log (Print ''Error when processing message'') w2)"
    by (rule datagram_received_signature_failure [OF p g v])
  then show "printed (trace (snd (snd (datagram_received env data itss_obj w)))) =
        printed (trace w) @ [''Error when processing message'']"
    by (simp add: printed_log_Print printed_after_resolution [OF g])
next
  assume h: "CITS103097v121SecureMessage env data = Inr msg \<and>
    get_certificate_by_digest env (SignerDigest msg) itss_obj w = (Returned cert, self2, w2) \<and>
    verify_signature env msg cert = Inr u"
  then have p: "CITS103097v121SecureMessage env data = Inr msg"
    and g: "get_certificate_by_digest env (SignerDigest msg) itss_obj w =
              (Returned cert, self2, w2)"
    and v: "verify_signature env msg cert = Inr u"
    by simp_all
  show "datagram_received env data itss_obj w =
        (Returned (), self2, log (Print ''Received verified message'') w2)"
    by (rule datagram_received_verified [OF p g v])
  then show "printed (trace (snd (snd (datagram_received env data itss_obj w)))) =
        printed (trace w) @ [''Received verified message'']"
    by (simp add: printed_log_Print printed_after_resolution [OF g])
qed

theorem datagram_received_failure_logged_and_discarded_witness:
  "datagram_received stub_env [1, 2, 3]
     (new_ITSS ''/var/itss'' ''http://ea'' ''http://aa'' None) (new_world 0) =
     (Returned (), new_ITSS ''/var/itss'' ''http://ea'' ''http://aa'' None,
      log (Print ''Error when processing message'') (new_world 0)) \<and>
   printed (trace (snd (snd (datagram_received stub_env [1, 2, 3, 4, 5, 6, 7, 8, 9]
     (new_ITSS ''/var/itss'' ''http://ea'' ''http://aa'' None)
     ((new_world 0)\<lparr>files :=
        [cert_fname (new_ITSS ''/var/itss'' ''http://ea'' ''http://aa'' None)
           [1, 2, 3, 4, 5, 6, 7, 8] \<mapsto> []]\<rparr>))))) =
     [''Error when processing message''] \<and>
   printed (trace (snd (snd (datagram_received
     (stub_env\<lparr>verify_signature := (\<lambda>msg cert. Inl ''bad signature'')\<rparr>)
     [1, 2, 3, 4, 5, 6, 7, 8, 9]
     ((new_ITSS ''/var/itss'' ''http://ea'' ''http://aa'' None)
        \<lparr>Certs := [[1, 2, 3, 4, 5, 6, 7, 8] \<mapsto> \<lparr>Digest = [1, 2, 3, 4, 5, 6, 7, 8], Data = [7]\<rparr>]\<rparr>)
     (new_world 0))))) =
     [''Error when processing message''] \<and>
   printed (trace (snd (snd (datagram_received stub_env [1, 2, 3, 4, 5, 6, 7, 8, 9]
     ((new_ITSS ''/var/itss'' ''http://ea'' ''http://aa'' None)
        \<lparr>Certs := [[1, 2, 3, 4, 5, 6, 7, 8] \<mapsto> \<lparr>Digest = [1, 2, 3, 4, 5, 6, 7, 8], Data = [7]\<rparr>]\<rparr>)
     (new_world 0))))) =
     [''Received verified message'']"
proof -
  let ?obj = "new_ITSS ''/var/itss'' ''http://ea'' ''http://aa'' None"
  let ?d = "[1, 2, 3, 4, 5, 6, 7, 8] :: bytes"
  let ?data = "[1, 2, 3, 4, 5, 6, 7, 8, 9] :: bytes"
  let ?msg = "\<lparr>Payload = [9], SignerDigest = ?d\<rparr> :: secure_message"
  let ?c = "\<lparr>Digest = ?d, Data = [7]\<rparr> :: certificate"
  let ?obj3 = "?obj\<lparr>Certs := [?d \<mapsto> ?c]\<rparr>"
  let ?w2 = "(new_world 0)\<lparr>files := [cert_fname ?obj ?d \<mapsto> []]\<rparr>"
  let ?env3 = "stub_env\<lparr>verify_signature := (\<lambda>msg cert. Inl ''bad signature'')\<rparr>"
  have p1: "CITS103097v121SecureMessage stub_env [1, 2, 3] = Inl ''truncated message''"
    by (simp add: stub_env_def)
  have p2: "CITS103097v121SecureMessage stub_env ?data = Inr ?msg"
    by (simp add: stub_env_def)
  have p3: "CITS103097v121SecureMessage ?env3 ?data = Inr ?msg"
    by (simp add: stub_env_def)
  have g2: "get_certificate_by_digest stub_env (SignerDigest ?msg) ?obj ?w2 =
              (Raised (LibraryError ''empty certificate''), ?obj,
               log (FileRead (cert_fname ?obj ?d)) ?w2)"
    by (simp add: get_certificate_by_digest_def read_file_def new_ITSS_def stub_env_def)
  have g3: "get_certificate_by_digest ?env3 (SignerDigest ?msg) ?obj3 (new_world 0) =
              (Returned ?c, ?obj3, new_world 0)"
    by (simp add: get_certificate_by_digest_def)
  have g4: "get_certificate_by_digest stub_env (SignerDigest ?msg) ?obj3 (new_world 0) =
              (Returned ?c, ?obj3, new_world 0)"
    by (simp add: get_certificate_by_digest_def)
  have v3: "verify_signature ?env3 ?msg ?c = Inl ''bad signature''"
    by simp
  have v4: "verify_signature stub_env ?msg ?c = Inr ()"
    by (simp add: stub_env_def)
  have e2: "printed (trace ?w2) = []" and e0: "printed (trace (new_world 0)) = []"
    by (simp_all add: new_world_def printed_def)
  note t = datagram_received_failure_logged_and_discarded
  have a: "datagram_received stub_env [1, 2, 3] ?obj (new_world 0) =
             (Returned (), ?obj, log (Print ''Error when processing message'') (new_world 0))"
    using t [THEN conjunct2, THEN conjunct2, THEN conjunct1, THEN mp, OF p1]
    by (rule conjunct1)
  have b: "printed (trace (snd (snd (datagram_received stub_env ?data ?obj ?w2)))) =
             printed (trace ?w2) @ [''Error when processing message'']"
    using t [THEN conjunct2, THEN conjunct2, THEN conjunct2, THEN conjunct1, THEN mp,
             OF conjI [OF p2 g2]]
    by (rule conjunct2)
  have c: "printed (trace (snd (snd (datagram_received ?env3 ?data ?obj3 (new_world 0))))) =
             printed (trace (new_world 0)) @ [''Error when processing message'']"
    using t [THEN conjunct2, THEN conjunct2, THEN conjunct2, THEN conjunct2, THEN conjunct1,
             THEN mp, OF conjI [OF p3 conjI [OF g3 v3]]]
    by (rule conjunct2)
  have d: "printed (trace (snd (snd (datagram_received stub_env ?data ?obj3 (new_world 0))))) =
             printed (trace (new_world 0)) @ [''Received verified message'']"
    using t [THEN conjunct2, THEN conjunct2, THEN conjunct2, THEN conjunct2, THEN conjunct2,
             THEN mp, OF conjI [OF p2 conjI [OF g4 v4]]]
    by (rule conjunct2)
  from a b c d show ?thesis
    by (simp only: e2 e0 append_Nil simp_thms)
qed

subsection \<open>\<open>store\<close>\<close>

text \<open>
  C3 on a new directory: after \<open>generate_private_key\<close> the certificates are unset and
  there is no \<open>itss.ec\<close> to remove; \<open>store\<close> writes the key file and then raises
  \<open>FileNotFoundError\<close> from \<open>os.unlink\<close> instead of completing.
\<close>

theorem store_unset_certificate_no_file_raises:
  "(case generate_private_key stub_env
           (new_ITSS ''/var/itss'' ''http://ea'' ''http://aa'' None) (new_world 0) of
      (r, self1, w1) \<Rightarrow>
        r = Returned () \<and> EC self1 = None \<and>
        files w1 ''/var/itss/itss.ec'' = None \<and>
        fst (store stub_env self1 w1) = Raised (FileNotFoundError ''/var/itss/itss.ec'') \<and>
        files (snd (snd (store stub_env self1 w1))) ''/var/itss/itss.key'' \<noteq> None)"
  by (simp add: generate_private_key_def store_def store_key_def store_cert_def unlink_def
        write_file_def log_def new_ITSS_def new_world_def stub_env_def os_path_join_def Let_def)

subsection \<open>The enrolment request\<close>

text \<open>
  C1 at request time 1000: the record handed to the codec has \<open>expiration\<close> 1000, the
  request time, not 4600. The local \<open>expiration = requestTime + 3600\<close> is computed and
  the dictionary literal does not use it.
\<close>

theorem enrolCertRequest_expiration_is_request_time:
  "subscript (enrolCertRequest 1000 (1000 + 3600) (2, 3) (0, 1)) ''expiration'' =
     Inr (VInt 1000) \<and>
   subscript (enrolCertRequest 1000 (1000 + 3600) (2, 3) (0, 1)) ''expiration'' \<noteq>
     Inr (VInt (1000 + 3600))"
  by (simp add: enrolCertRequest_def subscript_def)

subsection \<open>\<open>load\<close>: what it returns\<close>












subsection \<open>The requests of \<open>enroll\<close> and \<open>authorize\<close>\<close>

lemma enroll_send_signed:
  "signed_messages (trace (snd (snd (enroll_send env pk m self w)))) =
     signed_messages (trace w) @ [m]"
  by (simp add: enroll_send_def Let_def trace_log signed_messages_def
        split: sum.splits prod.splits)

lemma enroll_send_put:
  "ecdsa_sign env pk m = Inr (r, s) \<Longrightarrow>
   tagged env 0xa2 ''Signature'' (signature_record r s) = Inr c \<Longrightarrow>
   put_bodies (trace (snd (snd (enroll_send env pk m self w)))) =
     put_bodies (trace w) @ [encode_der_SEQUENCE env (m @ c)]"
  by (simp add: enroll_send_def Let_def trace_log put_bodies_def
        split: sum.splits prod.splits)

lemma authorize_send_signed:
  "signed_messages (trace (snd (snd (authorize_send env pk m self w)))) =
     signed_messages (trace w) @ [m]"
  by (simp add: authorize_send_def Let_def trace_log signed_messages_def
        split: sum.splits prod.splits)

lemma authorize_send_put:
  "ecdsa_sign env pk m = Inr (r, s) \<Longrightarrow>
   tagged env 0xa2 ''Signature'' (signature_record r s) = Inr c \<Longrightarrow>
   put_bodies (trace (snd (snd (authorize_send env pk m self w)))) =
     put_bodies (trace w) @ [encode_der_SEQUENCE env (m @ c)]"
  by (simp add: authorize_send_def Let_def trace_log put_bodies_def
        split: sum.splits prod.splits)

lemma enroll_signed:
  assumes "PrivateKey self = Some pk"
    and "tagged env 0xa0 ''SignerIdentifier'' signerEnrolRequest = Inr a"
    and "tagged env 0xa1 ''ToBeSignedEnrolmentCertificateRequest''
           (enrolCertRequest (now w) (now w + 3600) (pub_x pk, pub_y pk)
              (pub_x (ec_generate_private_key env (rng w)),
               pub_y (ec_generate_private_key env (rng w)))) = Inr b"
  shows "enroll env self w = enroll_send env pk (a @ b) self (w\<lparr>rng := rng w + 1\<rparr>)"
  using assms by (simp add: enroll_def Let_def)

lemma authorize_signed:
  assumes "EC self = Some ec" and "PrivateKey self = Some pk"
    and "tagged env 0xa0 ''SignerIdentifier'' (signerAuthRequest (Digest ec)) = Inr a"
    and "tagged env 0xa0 ''AuthCertRequest'' (authCertRequest (now w)) = Inr acr"
  shows "authorize env self w =
           authorize_send env pk (a @ [0xa1] @ encode_der_length env (length acr) @ acr) self w"
  using assms by (simp add: authorize_def Let_def)

lemma trace_rng_update: "trace (w\<lparr>rng := n\<rparr>) = trace w"
  by simp

lemma tagged_encode:
  "asn1_encode env name v = Inr enc \<Longrightarrow> tagged env tag name v = Inr (tag # drop 1 enc)"
  by (simp add: tagged_def)

lemma stub_tagged: "tagged stub_env tag name v = Inr (tag # ascii name)"
  by (simp add: tagged_def stub_env_def)

lemma stub_encode: "asn1_encode stub_env name v = Inr (0x30 # ascii name)"
  by (simp add: stub_env_def)

lemma stub_sign: "ecdsa_sign stub_env pk m = Inr (int (length m), private_value pk)"
  by (simp add: stub_env_def)

lemma stub_der_length: "encode_der_length stub_env n = [of_nat n]"
  by (simp add: stub_env_def)

lemma stub_der_SEQUENCE: "encode_der_SEQUENCE stub_env b = 0x30 # of_nat (length b) # b"
  by (simp add: stub_env_def)

text \<open>
  C5. In \<open>enroll\<close> and in \<open>authorize\<close> the message handed to \<open>PrivateKey.sign\<close> is the
  concatenation of two blocks and nothing else: the signer identifier under tag
  \<open>0xa0\<close>, then the block under tag \<open>0xa1\<close> (in \<open>enroll\<close> the encoded request with its
  leading byte replaced, in \<open>authorize\<close> the tag, the length and the wrapped variant).
  One message is signed by the call. The signature block, under tag \<open>0xa2\<close>, is encoded
  from the two numbers the signing returned and is appended after it: what is sent is
  the \<open>SEQUENCE\<close> of the signed bytes followed by the signature block.
\<close>

theorem signing_input_is_two_tagged_blocks:
  "(PrivateKey self = Some pk \<and>
    tagged env 0xa0 ''SignerIdentifier'' signerEnrolRequest = Inr a \<and>
    tagged env 0xa1 ''ToBeSignedEnrolmentCertificateRequest''
      (enrolCertRequest (now w) (now w + 3600) (pub_x pk, pub_y pk)
         (pub_x (ec_generate_private_key env (rng w)),
          pub_y (ec_generate_private_key env (rng w)))) = Inr b \<longrightarrow>
      signed_messages (trace (snd (snd (enroll env self w)))) =
        signed_messages (trace w) @ [a @ b] \<and>
      (ecdsa_sign env pk (a @ b) = Inr (r, s) \<and>
       tagged env 0xa2 ''Signature'' (signature_record r s) = Inr c \<longrightarrow>
         put_bodies (trace (snd (snd (enroll env self w)))) =
           put_bodies (trace w) @ [encode_der_SEQUENCE env ((a @ b) @ c)])) \<and>
   (EC self = Some ec \<and> PrivateKey self = Some pk \<and>
    tagged env 0xa0 ''SignerIdentifier'' (signerAuthRequest (Digest ec)) = Inr a' \<and>
    tagged env 0xa0 ''AuthCertRequest'' (authCertRequest (now w)) = Inr acr \<longrightarrow>
      signed_messages (trace (snd (snd (authorize env self w)))) =
        signed_messages (trace w) @
          [a' @ ([0xa1] @ encode_der_length env (length acr) @ acr)] \<and>
      (ecdsa_sign env pk (a' @ ([0xa1] @ encode_der_length env (length acr) @ acr)) =
         Inr (r', s') \<and>
       tagged env 0xa2 ''Signature'' (signature_record r' s') = Inr c' \<longrightarrow>
         put_bodies (trace (snd (snd (authorize env self w)))) =
           put_bodies (trace w) @
             [encode_der_SEQUENCE env
                ((a' @ ([0xa1] @ encode_der_length env (length acr) @ acr)) @ c')]))"
proof (intro conjI impI)
  assume h: "PrivateKey self = Some pk \<and>
    tagged env 0xa0 ''SignerIdentifier'' signerEnrolRequest = Inr a \<and>
    tagged env 0xa1 ''ToBeSignedEnrolmentCertificateRequest''
      (enrolCertRequest (now w) (now w + 3600) (pub_x pk, pub_y pk)
         (pub_x (ec_generate_private_key env (rng w)),
          pub_y (ec_generate_private_key env (rng w)))) = Inr b"
  from h have h1: "PrivateKey self = Some pk"
    and h2: "tagged env 0xa0 ''SignerIdentifier'' signerEnrolRequest = Inr a"
    and h3: "tagged env 0xa1 ''ToBeSignedEnrolmentCertificateRequest''
      (enrolCertRequest (now w) (now w + 3600) (pub_x pk, pub_y pk)
         (pub_x (ec_generate_private_key env (rng w)),
          pub_y (ec_generate_private_key env (rng w)))) = Inr b"
    by simp_all
  have run: "enroll env self w = enroll_send env pk (a @ b) self (w\<lparr>rng := rng w + 1\<rparr>)"
    by (rule enroll_signed [OF h1 h2 h3])
  show "signed_messages (trace (snd (snd (enroll env self w)))) =
          signed_messages (trace w) @ [a @ b]"
    by (simp only: run enroll_send_signed trace_rng_update)
  assume g: "ecdsa_sign env pk (a @ b) = Inr (r, s) \<and>
       tagged env 0xa2 ''Signature'' (signature_record r s) = Inr c"
  from g have g1: "ecdsa_sign env pk (a @ b) = Inr (r, s)"
    and g2: "tagged env 0xa2 ''Signature'' (signature_record r s) = Inr c"
    by simp_all
  have "put_bodies (trace (snd (snd (enroll_send env pk (a @ b) self (w\<lparr>rng := rng w + 1\<rparr>))))) =
          put_bodies (trace (w\<lparr>rng := rng w + 1\<rparr>)) @ [encode_der_SEQUENCE env ((a @ b) @ c)]"
    by (rule enroll_send_put [OF g1 g2])
  then show "put_bodies (trace (snd (snd (enroll env self w)))) =
           put_bodies (trace w) @ [encode_der_SEQUENCE env ((a @ b) @ c)]"
    by (simp only: run trace_rng_update)
next
  let ?m = "a' @ ([0xa1] @ encode_der_length env (length acr) @ acr)"
  assume h: "EC self = Some ec \<and> PrivateKey self = Some pk \<and>
    tagged env 0xa0 ''SignerIdentifier'' (signerAuthRequest (Digest ec)) = Inr a' \<and>
    tagged env 0xa0 ''AuthCertRequest'' (authCertRequest (now w)) = Inr acr"
  from h have h1: "EC self = Some ec" and h2: "PrivateKey self = Some pk"
    and h3: "tagged env 0xa0 ''SignerIdentifier'' (signerAuthRequest (Digest ec)) = Inr a'"
    and h4: "tagged env 0xa0 ''AuthCertRequest'' (authCertRequest (now w)) = Inr acr"
    by simp_all
  have run: "authorize env self w = authorize_send env pk ?m self w"
    by (rule authorize_signed [OF h1 h2 h3 h4])
  show "signed_messages (trace (snd (snd (authorize env self w)))) =
          signed_messages (trace w) @ [?m]"
    by (simp only: run authorize_send_signed)
  assume g: "ecdsa_sign env pk ?m = Inr (r', s') \<and>
       tagged env 0xa2 ''Signature'' (signature_record r' s') = Inr c'"
  from g have g1: "ecdsa_sign env pk ?m = Inr (r', s')"
    and g2: "tagged env 0xa2 ''Signature'' (signature_record r' s') = Inr c'"
    by simp_all
  have "put_bodies (trace (snd (snd (authorize_send env pk ?m self w)))) =
          put_bodies (trace w) @ [encode_der_SEQUENCE env (?m @ c')]"
    by (rule authorize_send_put [OF g1 g2])
  then show "put_bodies (trace (snd (snd (authorize env self w)))) =
           put_bodies (trace w) @ [encode_der_SEQUENCE env (?m @ c')]"
    by (simp only: run)
qed

theorem signing_input_is_two_tagged_blocks_witness:
  "signed_messages (trace (snd (snd (enroll stub_env
     ((new_ITSS ''/var/itss'' ''http://ea'' ''http://aa'' None)
        \<lparr>PrivateKey := Some \<lparr>private_value = 5, pub_x = 6, pub_y = 7\<rparr>,
         EC := Some \<lparr>Digest = [1], Data = [2]\<rparr>\<rparr>) (new_world 1000))))) =
     [(0xa0 # ascii ''SignerIdentifier'') @
      (0xa1 # ascii ''ToBeSignedEnrolmentCertificateRequest'')] \<and>
   put_bodies (trace (snd (snd (enroll stub_env
     ((new_ITSS ''/var/itss'' ''http://ea'' ''http://aa'' None)
        \<lparr>PrivateKey := Some \<lparr>private_value = 5, pub_x = 6, pub_y = 7\<rparr>,
         EC := Some \<lparr>Digest = [1], Data = [2]\<rparr>\<rparr>) (new_world 1000))))) =
     [encode_der_SEQUENCE stub_env
        (((0xa0 # ascii ''SignerIdentifier'') @
          (0xa1 # ascii ''ToBeSignedEnrolmentCertificateRequest'')) @
         (0xa2 # ascii ''Signature''))] \<and>
   signed_messages (trace (snd (snd (authorize stub_env
     ((new_ITSS ''/var/itss'' ''http://ea'' ''http://aa'' None)
        \<lparr>PrivateKey := Some \<lparr>private_value = 5, pub_x = 6, pub_y = 7\<rparr>,
         EC := Some \<lparr>Digest = [1], Data = [2]\<rparr>\<rparr>) (new_world 1000))))) =
     [(0xa0 # ascii ''SignerIdentifier'') @
      ([0xa1] @ encode_der_length stub_env (length (0xa0 # ascii ''AuthCertRequest'')) @
       (0xa0 # ascii ''AuthCertRequest''))] \<and>
   put_bodies (trace (snd (snd (authorize stub_env
     ((new_ITSS ''/var/itss'' ''http://ea'' ''http://aa'' None)
        \<lparr>PrivateKey := Some \<lparr>private_value = 5, pub_x = 6, pub_y = 7\<rparr>,
         EC := Some \<lparr>Digest = [1], Data = [2]\<rparr>\<rparr>) (new_world 1000))))) =
     [encode_der_SEQUENCE stub_env
        (((0xa0 # ascii ''SignerIdentifier'') @
          ([0xa1] @ encode_der_length stub_env (length (0xa0 # ascii ''AuthCertRequest'')) @
           (0xa0 # ascii ''AuthCertRequest''))) @
         (0xa2 # ascii ''Signature''))]"
proof -
  let ?k = "\<lparr>private_value = 5, pub_x = 6, pub_y = 7\<rparr> :: private_key"
  let ?ec = "\<lparr>Digest = [1], Data = [2]\<rparr> :: certificate"
  let ?self = "(new_ITSS ''/var/itss'' ''http://ea'' ''http://aa'' None)
                 \<lparr>PrivateKey := Some ?k, EC := Some ?ec\<rparr>"
  let ?w = "new_world 1000"
  have pk: "PrivateKey ?self = Some ?k" and ec: "EC ?self = Some ?ec"
    by simp_all
  have e0: "signed_messages (trace ?w) = []" and p0: "put_bodies (trace ?w) = []"
    by (simp_all add: new_world_def signed_messages_def put_bodies_def)
  note t = signing_input_is_two_tagged_blocks [where w = "new_world 1000"]
  note en = t [THEN conjunct1, THEN mp, OF conjI [OF pk conjI [OF stub_tagged stub_tagged]]]
  note au = t [THEN conjunct2, THEN mp,
               OF conjI [OF ec conjI [OF pk conjI [OF stub_tagged stub_tagged]]]]
  note en1 = en [THEN conjunct1]
  note en2 = en [THEN conjunct2, THEN mp, OF conjI [OF stub_sign stub_tagged]]
  note au1 = au [THEN conjunct1]
  note au2 = au [THEN conjunct2, THEN mp, OF conjI [OF stub_sign stub_tagged]]
  from en1 en2 au1 au2 show ?thesis
    by (simp only: e0 p0 append_Nil simp_thms)
qed

text \<open>
  C6. In \<open>authorize\<close> the encoding of the \<open>AuthCertRequest\<close> variant first has its
  leading byte replaced by the tag \<open>0xa0\<close>; the block so obtained is then placed under
  the tag \<open>0xa1\<close> behind its own length, \<open>encode_der_length (len(acr))\<close>. In \<open>enroll\<close>
  the encoding of the to-be-signed request has its leading byte replaced by \<open>0xa1\<close> and
  nothing is put between that tag and the rest of the encoding: no inner tag and no
  added length. These are the bytes that are signed, and the request that is sent is
  their \<open>SEQUENCE\<close> with the signature block.
\<close>

theorem authorize_wraps_variant_under_inner_tag_and_length:
  "(EC self = Some ec \<and> PrivateKey self = Some pk \<and>
    asn1_encode env ''SignerIdentifier'' (signerAuthRequest (Digest ec)) = Inr sid \<and>
    asn1_encode env ''AuthCertRequest'' (authCertRequest (now w)) = Inr var \<longrightarrow>
      signed_messages (trace (snd (snd (authorize env self w)))) =
        signed_messages (trace w) @
          [(0xa0 # drop 1 sid) @
           [0xa1] @ encode_der_length env (length (0xa0 # drop 1 var)) @ (0xa0 # drop 1 var)] \<and>
      (ecdsa_sign env pk
         ((0xa0 # drop 1 sid) @
          [0xa1] @ encode_der_length env (length (0xa0 # drop 1 var)) @ (0xa0 # drop 1 var)) =
         Inr (r, s) \<and>
       asn1_encode env ''Signature'' (signature_record r s) = Inr sg \<longrightarrow>
         put_bodies (trace (snd (snd (authorize env self w)))) =
           put_bodies (trace w) @
             [encode_der_SEQUENCE env
                (((0xa0 # drop 1 sid) @
                  [0xa1] @ encode_der_length env (length (0xa0 # drop 1 var)) @
                  (0xa0 # drop 1 var)) @
                 (0xa2 # drop 1 sg))])) \<and>
   (PrivateKey self = Some pk \<and>
    asn1_encode env ''SignerIdentifier'' signerEnrolRequest = Inr sid' \<and>
    asn1_encode env ''ToBeSignedEnrolmentCertificateRequest''
      (enrolCertRequest (now w) (now w + 3600) (pub_x pk, pub_y pk)
         (pub_x (ec_generate_private_key env (rng w)),
          pub_y (ec_generate_private_key env (rng w)))) = Inr tbs \<longrightarrow>
      signed_messages (trace (snd (snd (enroll env self w)))) =
        signed_messages (trace w) @ [(0xa0 # drop 1 sid') @ (0xa1 # drop 1 tbs)] \<and>
      (ecdsa_sign env pk ((0xa0 # drop 1 sid') @ (0xa1 # drop 1 tbs)) = Inr (r', s') \<and>
       asn1_encode env ''Signature'' (signature_record r' s') = Inr sg' \<longrightarrow>
         put_bodies (trace (snd (snd (enroll env self w)))) =
           put_bodies (trace w) @
             [encode_der_SEQUENCE env
                (((0xa0 # drop 1 sid') @ (0xa1 # drop 1 tbs)) @ (0xa2 # drop 1 sg'))]))"
proof (intro conjI impI)
  let ?acr = "0xa0 # drop 1 var"
  let ?m = "(0xa0 # drop 1 sid) @ [0xa1] @ encode_der_length env (length ?acr) @ ?acr"
  assume h: "EC self = Some ec \<and> PrivateKey self = Some pk \<and>
    asn1_encode env ''SignerIdentifier'' (signerAuthRequest (Digest ec)) = Inr sid \<and>
    asn1_encode env ''AuthCertRequest'' (authCertRequest (now w)) = Inr var"
  then have h1: "EC self = Some ec" and h2: "PrivateKey self = Some pk"
    and h3: "asn1_encode env ''SignerIdentifier'' (signerAuthRequest (Digest ec)) = Inr sid"
    and h4: "asn1_encode env ''AuthCertRequest'' (authCertRequest (now w)) = Inr var"
    by simp_all
  have run: "authorize env self w = authorize_send env pk ?m self w"
    by (rule authorize_signed [OF h1 h2 tagged_encode [OF h3] tagged_encode [OF h4]])
  show "signed_messages (trace (snd (snd (authorize env self w)))) =
          signed_messages (trace w) @ [?m]"
    by (simp only: run authorize_send_signed)
  assume g: "ecdsa_sign env pk ?m = Inr (r, s) \<and>
       asn1_encode env ''Signature'' (signature_record r s) = Inr sg"
  then have g1: "ecdsa_sign env pk ?m = Inr (r, s)"
    and g2: "asn1_encode env ''Signature'' (signature_record r s) = Inr sg"
    by simp_all
  have "put_bodies (trace (snd (snd (authorize_send env pk ?m self w)))) =
          put_bodies (trace w) @ [encode_der_SEQUENCE env (?m @ (0xa2 # drop 1 sg))]"
    by (rule authorize_send_put [OF g1 tagged_encode [OF g2]])
  then show "put_bodies (trace (snd (snd (authorize env self w)))) =
          put_bodies (trace w) @ [encode_der_SEQUENCE env (?m @ (0xa2 # drop 1 sg))]"
    by (simp only: run)
next
  let ?m = "(0xa0 # drop 1 sid') @ (0xa1 # drop 1 tbs)"
  let ?w1 = "w\<lparr>rng := rng w + 1\<rparr>"
  assume h: "PrivateKey self = Some pk \<and>
    asn1_encode env ''SignerIdentifier'' signerEnrolRequest = Inr sid' \<and>
    asn1_encode env ''ToBeSignedEnrolmentCertificateRequest''
      (enrolCertRequest (now w) (now w + 3600) (pub_x pk, pub_y pk)
         (pub_x (ec_generate_private_key env (rng w)),
          pub_y (ec_generate_private_key env (rng w)))) = Inr tbs"
  then have h1: "PrivateKey self = Some pk"
    and h2: "asn1_encode env ''SignerIdentifier'' signerEnrolRequest = Inr sid'"
    and h3: "asn1_encode env ''ToBeSignedEnrolmentCertificateRequest''
      (enrolCertRequest (now w) (now w + 3600) (pub_x pk, pub_y pk)
         (pub_x (ec_generate_private_key env (rng w)),
          pub_y (ec_generate_private_key env (rng w)))) = Inr tbs"
    by simp_all
  have run: "enroll env self w = enroll_send env pk ?m self ?w1"
    by (rule enroll_signed [OF h1 tagged_encode [OF h2] tagged_encode [OF h3]])
  show "signed_messages (trace (snd (snd (enroll env self w)))) =
          signed_messages (trace w) @ [?m]"
    by (simp only: run enroll_send_signed trace_rng_update)
  assume g: "ecdsa_sign env pk ?m = Inr (r', s') \<and>
       asn1_encode env ''Signature'' (signature_record r' s') = Inr sg'"
  then have g1: "ecdsa_sign env pk ?m = Inr (r', s')"
    and g2: "asn1_encode env ''Signature'' (signature_record r' s') = Inr sg'"
    by simp_all
  have "put_bodies (trace (snd (snd (enroll_send env pk ?m self ?w1)))) =
          put_bodies (trace ?w1) @ [encode_der_SEQUENCE env (?m @ (0xa2 # drop 1 sg'))]"
    by (rule enroll_send_put [OF g1 tagged_encode [OF g2]])
  then show "put_bodies (trace (snd (snd (enroll env self w)))) =
          put_bodies (trace w) @ [encode_der_SEQUENCE env (?m @ (0xa2 # drop 1 sg'))]"
    by (simp only: run trace_rng_update)
qed

theorem authorize_wraps_variant_under_inner_tag_and_length_witness:
  "signed_messages (trace (snd (snd (authorize stub_env
     ((new_ITSS ''/var/itss'' ''http://ea'' ''http://aa'' None)
        \<lparr>PrivateKey := Some \<lparr>private_value = 5, pub_x = 6, pub_y = 7\<rparr>,
         EC := Some \<lparr>Digest = [1], Data = [2]\<rparr>\<rparr>) (new_world 1000))))) =
     [(0xa0 # ascii ''SignerIdentifier'') @ [0xa1, 16, 0xa0] @ ascii ''AuthCertRequest''] \<and>
   signed_messages (trace (snd (snd (enroll stub_env
     ((new_ITSS ''/var/itss'' ''http://ea'' ''http://aa'' None)
        \<lparr>PrivateKey := Some \<lparr>private_value = 5, pub_x = 6, pub_y = 7\<rparr>,
         EC := Some \<lparr>Digest = [1], Data = [2]\<rparr>\<rparr>) (new_world 1000))))) =
     [(0xa0 # ascii ''SignerIdentifier'') @
      [0xa1] @ ascii ''ToBeSignedEnrolmentCertificateRequest'']"
proof -
  let ?k = "\<lparr>private_value = 5, pub_x = 6, pub_y = 7\<rparr> :: private_key"
  let ?ec = "\<lparr>Digest = [1], Data = [2]\<rparr> :: certificate"
  let ?self = "(new_ITSS ''/var/itss'' ''http://ea'' ''http://aa'' None)
                 \<lparr>PrivateKey := Some ?k, EC := Some ?ec\<rparr>"
  let ?w = "new_world 1000"
  have pk: "PrivateKey ?self = Some ?k" and ec: "EC ?self = Some ?ec"
    by simp_all
  have e0: "signed_messages (trace ?w) = []"
    by (simp add: new_world_def signed_messages_def)
  note t = authorize_wraps_variant_under_inner_tag_and_length [where w = "new_world 1000"]
  note au = t [THEN conjunct1, THEN mp,
               OF conjI [OF ec conjI [OF pk conjI [OF stub_encode stub_encode]]],
               THEN conjunct1]
  note en = t [THEN conjunct2, THEN mp, OF conjI [OF pk conjI [OF stub_encode stub_encode]],
               THEN conjunct1]
  from au en show ?thesis
    by (simp add: e0 stub_der_length ascii_def)
qed

end
